theory Spec2Isabelle
  imports Main
begin

section \<open>The reference datasets\<close>

text \<open>
  The repository holds four copies of one client-rendered React component, each with its
  own constant tables:
  \<^item> \<open>IPv4OSIApp\<close> with a Story tab (first document of \<open>src/unnamed/part_000\<close>),
  \<^item> \<open>IPv6OSIApp\<close> (second document of \<open>src/unnamed/part_000\<close>),
  \<^item> \<open>IPv6OSIApp\<close> (\<open>src/app/page.tsx\<close>),
  \<^item> \<open>IPv4OSIApp\<close> without a Story tab and with a single detail panel
    (\<open>src/unnamed/part_001\<close>).
  The interfaces \<open>IPv4Field\<close> and \<open>IPv6Field\<close> have the same shape and are one record
  here. \<open>OSILayer\<close> carries the optional flag \<open>isIPv4Layer\<close> or \<open>isIPv6Layer\<close>; it is the
  field \<open>isIPLayer\<close> below, \<open>None\<close> where the object literal leaves it out.
\<close>

record HeaderField =
  name :: string
  bits :: string
  description :: string
  purpose :: string
  example :: "string option"

record OSILayer =
  number :: int
  layerName :: string
  layerDescription :: string
  protocols :: "string list"
  isIPLayer :: "bool option"

datatype variant = IPv4Story | IPv6Story | IPv6Page | IPv4Plain

definition ipv4Fields_story :: "HeaderField list" where
  "ipv4Fields_story = [
     \<lparr>name = ''Version'', bits = ''4 bits'',
      description = ''IP version number'',
      purpose = ''Identifies the IP version being used. For IPv4, this value is always 4.'',
      example = Some ''0100 (binary) = 4 (decimal)''\<rparr>,
     \<lparr>name = ''IHL'', bits = ''4 bits'',
      description = ''Internet Header Length'',
      purpose = ''Specifies the length of the IP header in 32-bit words (4-byte units). Minimum value is 5 (20 bytes) for a header with no options. Maximum is 15 (60 bytes).'',
      example = Some ''5 = 20 bytes (no options), 8 = 32 bytes (12 bytes of options)''\<rparr>,
     \<lparr>name = ''Type of Service'', bits = ''8 bits'',
      description = ''Type of Service (DSCP + ECN)'',
      purpose = ''Defines how the packet should be handled in terms of priority, delay, throughput, and reliability. First 6 bits are DSCP, last 2 bits are ECN.'',
      example = Some ''00000000 = Normal service, 10111000 = Expedited Forwarding''\<rparr>,
     \<lparr>name = ''Total Length'', bits = ''16 bits'',
      description = ''Total packet length'',
      purpose = ''Specifies the total length of the IP packet (header + data) in bytes. Maximum is 65,535 bytes.'',
      example = Some ''1500 bytes for standard Ethernet frame''\<rparr>,
     \<lparr>name = ''Identification'', bits = ''16 bits'',
      description = ''Unique packet identifier'',
      purpose = ''Uniquely identifies fragments of an original IP packet. All fragments have the same ID.'',
      example = Some ''12345 (decimal)''\<rparr>,
     \<lparr>name = ''Flags'', bits = ''3 bits'',
      description = ''Control fragmentation'',
      purpose = ''Controls packet fragmentation: Reserved bit (must be 0), Don't Fragment (DF), More Fragments (MF).'',
      example = Some ''010 = Don't Fragment set''\<rparr>,
     \<lparr>name = ''Fragment Offset'', bits = ''13 bits'',
      description = ''Fragment position'',
      purpose = ''Indicates where this fragment belongs in the original packet, measured in 8-byte units.'',
      example = Some ''0 for first fragment''\<rparr>,
     \<lparr>name = ''Time to Live'', bits = ''8 bits'',
      description = ''Maximum hops allowed'',
      purpose = ''Prevents infinite routing loops by limiting packet lifetime. Decremented at each hop.'',
      example = Some ''64 hops (common default)''\<rparr>,
     \<lparr>name = ''Protocol'', bits = ''8 bits'',
      description = ''Next layer protocol'',
      purpose = ''Identifies the protocol used in the data portion (TCP=6, UDP=17, ICMP=1).'',
      example = Some ''6 = TCP, 17 = UDP''\<rparr>,
     \<lparr>name = ''Header Checksum'', bits = ''16 bits'',
      description = ''Error detection'',
      purpose = ''Provides error detection for the header only. Recalculated at each hop due to TTL changes.'',
      example = Some ''Calculated using one's complement''\<rparr>,
     \<lparr>name = ''Source IP Address'', bits = ''32 bits'',
      description = ''Sender's IP address'',
      purpose = ''The IP address of the device sending the packet.'',
      example = Some ''192.168.1.100''\<rparr>,
     \<lparr>name = ''Destination IP Address'', bits = ''32 bits'',
      description = ''Receiver's IP address'',
      purpose = ''The IP address of the device that should receive the packet.'',
      example = Some ''8.8.8.8''\<rparr>,
     \<lparr>name = ''Options'', bits = ''0-40 bytes'',
      description = ''Optional header fields with padding'',
      purpose = ''Variable-length field for additional IP options like source routing, timestamps, or security. Must be padded to ensure the header length is a multiple of 32 bits.'',
      example = Some ''Usually empty in most packets. When present, often includes padding to align to 32-bit boundary.''\<rparr>]"

definition ipv6Fields_story :: "HeaderField list" where
  "ipv6Fields_story = [
     \<lparr>name = ''Version'', bits = ''4 bits'',
      description = ''IP version number'',
      purpose = ''Identifies the IP version being used. For IPv6, this value is always 6.'',
      example = Some ''0110 (binary) = 6 (decimal)''\<rparr>,
     \<lparr>name = ''Traffic Class'', bits = ''8 bits'',
      description = ''Quality of Service (QoS) marking'',
      purpose = ''Similar to the Type of Service field in IPv4. Used for packet prioritization and congestion control. First 6 bits are DSCP, last 2 bits are ECN.'',
      example = Some ''00000000 = Normal service, 10111000 = Expedited Forwarding''\<rparr>,
     \<lparr>name = ''Flow Label'', bits = ''20 bits'',
      description = ''Packet flow identification'',
      purpose = ''Identifies packets belonging to the same flow, allowing routers to process related packets together. Helps with quality of service and real-time data.'',
      example = Some ''0x12345 (a unique flow identifier)''\<rparr>,
     \<lparr>name = ''Payload Length'', bits = ''16 bits'',
      description = ''Size of payload'',
      purpose = ''Specifies the length of the payload (data after the IPv6 header) in bytes. Does not include the header size.'',
      example = Some ''1440 bytes (typical payload size)''\<rparr>,
     \<lparr>name = ''Next Header'', bits = ''8 bits'',
      description = ''Next header type'',
      purpose = ''Identifies the type of header immediately following the IPv6 header (e.g., TCP, UDP, or an Extension Header).'',
      example = Some ''6 = TCP, 17 = UDP, 58 = ICMPv6''\<rparr>,
     \<lparr>name = ''Hop Limit'', bits = ''8 bits'',
      description = ''Maximum hops allowed'',
      purpose = ''Similar to TTL in IPv4. Prevents infinite routing loops by limiting packet lifetime. Decremented at each hop.'',
      example = Some ''64 hops (common default)''\<rparr>,
     \<lparr>name = ''Source Address'', bits = ''128 bits'',
      description = ''Sender's IPv6 address'',
      purpose = ''The IPv6 address of the device sending the packet.'',
      example = Some ''2001:0db8:85a3:0000:0000:8a2e:0370:7334''\<rparr>,
     \<lparr>name = ''Destination Address'', bits = ''128 bits'',
      description = ''Receiver's IPv6 address'',
      purpose = ''The IPv6 address of the device that should receive the packet.'',
      example = Some ''2001:4860:4860::8888 (Google's public DNS)''\<rparr>,
     \<lparr>name = ''Extension Headers'', bits = ''Variable'',
      description = ''Optional headers'',
      purpose = ''Provides additional functionality beyond the main header. Can include Hop-by-Hop Options, Routing, Fragment, Destination Options, Authentication, and Encapsulating Security Payload.'',
      example = Some ''Authentication Header (AH), Encapsulating Security Payload (ESP)''\<rparr>]"

definition ipv6Fields_page :: "HeaderField list" where
  "ipv6Fields_page = [
     \<lparr>name = ''Version'', bits = ''4 bits'',
      description = ''IP version number'',
      purpose = ''Identifies the IP version being used. For IPv6, this value is always 6.'',
      example = Some ''0110 (binary) = 6 (decimal)''\<rparr>,
     \<lparr>name = ''Traffic Class'', bits = ''8 bits'',
      description = ''Quality of Service (QoS) marking'',
      purpose = ''Similar to the Type of Service field in IPv4. Used for packet prioritization and congestion control. First 6 bits are DSCP, last 2 bits are ECN.'',
      example = Some ''00000000 = Normal service, 10111000 = Expedited Forwarding''\<rparr>,
     \<lparr>name = ''Flow Label'', bits = ''20 bits'',
      description = ''Packet flow identification'',
      purpose = ''Identifies packets that belong to the same flow, allowing routers to process related packets together. Helps with quality of service and real-time data.'',
      example = Some ''0x12345 (20-bit value)''\<rparr>,
     \<lparr>name = ''Payload Length'', bits = ''16 bits'',
      description = ''Length of payload'',
      purpose = ''Specifies the length of the payload (data after the IPv6 header) in bytes. Does not include the header itself.'',
      example = Some ''1440 bytes for a typical payload''\<rparr>,
     \<lparr>name = ''Next Header'', bits = ''8 bits'',
      description = ''Next header type'',
      purpose = ''Identifies the type of header immediately following the IPv6 header (TCP=6, UDP=17, ICMPv6=58).'',
      example = Some ''6 = TCP, 17 = UDP, 58 = ICMPv6''\<rparr>,
     \<lparr>name = ''Hop Limit'', bits = ''8 bits'',
      description = ''Maximum hops allowed'',
      purpose = ''Prevents infinite routing loops by limiting packet lifetime. Decremented at each hop, similar to TTL in IPv4.'',
      example = Some ''64 hops (common default)''\<rparr>,
     \<lparr>name = ''Source Address'', bits = ''128 bits'',
      description = ''Sender's IPv6 address'',
      purpose = ''The IPv6 address of the device sending the packet. Four times larger than IPv4 addresses.'',
      example = Some ''2001:0db8:85a3:0000:0000:8a2e:0370:7334''\<rparr>,
     \<lparr>name = ''Destination Address'', bits = ''128 bits'',
      description = ''Receiver's IPv6 address'',
      purpose = ''The IPv6 address of the device that should receive the packet. Four times larger than IPv4 addresses.'',
      example = Some ''2001:4860:4860::8888 (Google's public DNS)''\<rparr>,
     \<lparr>name = ''Extension Headers'', bits = ''Variable'',
      description = ''Optional headers for special handling'',
      purpose = ''IPv6 uses extension headers instead of the options field in IPv4. These are placed between the IPv6 header and the upper-layer header. Common types include Hop-by-Hop Options, Routing, Fragment, Destination Options, Authentication, and Encapsulating Security Payload.'',
      example = Some ''Hop-by-Hop Options header (Next Header value = 0), Routing header (Next Header value = 43)''\<rparr>]"

definition ipv4Fields_plain :: "HeaderField list" where
  "ipv4Fields_plain = [
     \<lparr>name = ''Version'', bits = ''4 bits'',
      description = ''IP version number'',
      purpose = ''Identifies the IP version being used. For IPv4, this value is always 4.'',
      example = Some ''0100 (binary) = 4 (decimal)''\<rparr>,
     \<lparr>name = ''IHL'', bits = ''4 bits'',
      description = ''Internet Header Length'',
      purpose = ''Specifies the length of the IP header in 32-bit words. Minimum value is 5 (20 bytes).'',
      example = Some ''0101 (binary) = 5 words = 20 bytes''\<rparr>,
     \<lparr>name = ''Type of Service'', bits = ''8 bits'',
      description = ''Quality of Service parameters'',
      purpose = ''Defines the priority and type of service for the packet. Used for QoS routing decisions.'',
      example = Some ''00000000 = Normal service''\<rparr>,
     \<lparr>name = ''Total Length'', bits = ''16 bits'',
      description = ''Total packet length'',
      purpose = ''Specifies the total length of the IP packet (header + data) in bytes. Maximum is 65,535 bytes.'',
      example = Some ''1500 bytes for standard Ethernet frame''\<rparr>,
     \<lparr>name = ''Identification'', bits = ''16 bits'',
      description = ''Unique packet identifier'',
      purpose = ''Uniquely identifies fragments of an original IP packet. All fragments have the same ID.'',
      example = Some ''12345 (decimal)''\<rparr>,
     \<lparr>name = ''Flags'', bits = ''3 bits'',
      description = ''Control fragmentation'',
      purpose = ''Controls packet fragmentation: Reserved bit, Don't Fragment (DF), More Fragments (MF).'',
      example = Some ''010 = Don't Fragment set''\<rparr>,
     \<lparr>name = ''Fragment Offset'', bits = ''13 bits'',
      description = ''Fragment position'',
      purpose = ''Indicates where this fragment belongs in the original packet, measured in 8-byte units.'',
      example = Some ''0 for first fragment''\<rparr>,
     \<lparr>name = ''Time to Live'', bits = ''8 bits'',
      description = ''Maximum hops allowed'',
      purpose = ''Prevents infinite routing loops by limiting packet lifetime. Decremented at each hop.'',
      example = Some ''64 hops (common default)''\<rparr>,
     \<lparr>name = ''Protocol'', bits = ''8 bits'',
      description = ''Next layer protocol'',
      purpose = ''Identifies the protocol used in the data portion (TCP=6, UDP=17, ICMP=1).'',
      example = Some ''6 = TCP, 17 = UDP''\<rparr>,
     \<lparr>name = ''Header Checksum'', bits = ''16 bits'',
      description = ''Error detection'',
      purpose = ''Provides error detection for the header only. Recalculated at each hop due to TTL changes.'',
      example = Some ''Calculated using one's complement''\<rparr>,
     \<lparr>name = ''Source IP Address'', bits = ''32 bits'',
      description = ''Sender's IP address'',
      purpose = ''The IP address of the device sending the packet.'',
      example = Some ''192.168.1.100''\<rparr>,
     \<lparr>name = ''Destination IP Address'', bits = ''32 bits'',
      description = ''Receiver's IP address'',
      purpose = ''The IP address of the device that should receive the packet.'',
      example = Some ''8.8.8.8''\<rparr>,
     \<lparr>name = ''Options'', bits = ''0-40 bytes'',
      description = ''Optional header fields'',
      purpose = ''Variable-length field for additional IP options like source routing or timestamps.'',
      example = Some ''Usually empty in most packets''\<rparr>]"

definition osiLayers_ipv4 :: "OSILayer list" where
  "osiLayers_ipv4 = [
     \<lparr>number = 7, layerName = ''Application Layer'',
      layerDescription = ''Network services to applications'',
      protocols = [''HTTP'', ''HTTPS'', ''FTP'', ''SMTP'', ''DNS''],
      isIPLayer = None\<rparr>,
     \<lparr>number = 6, layerName = ''Presentation Layer'',
      layerDescription = ''Data translation, encryption, compression'',
      protocols = [''SSL/TLS'', ''JPEG'', ''GIF'', ''ASCII''],
      isIPLayer = None\<rparr>,
     \<lparr>number = 5, layerName = ''Session Layer'',
      layerDescription = ''Establishes, manages, terminates connections'',
      protocols = [''NetBIOS'', ''RPC'', ''SQL''],
      isIPLayer = None\<rparr>,
     \<lparr>number = 4, layerName = ''Transport Layer'',
      layerDescription = ''Reliable data transfer, error recovery'',
      protocols = [''TCP'', ''UDP'', ''SCTP''],
      isIPLayer = None\<rparr>,
     \<lparr>number = 3, layerName = ''Network Layer'',
      layerDescription = ''Routing, logical addressing'',
      protocols = [''IPv4'', ''IPv6'', ''ICMP'', ''OSPF''],
      isIPLayer = Some True\<rparr>,
     \<lparr>number = 2, layerName = ''Data Link Layer'',
      layerDescription = ''Node-to-node delivery, error detection'',
      protocols = [''Ethernet'', ''Wi-Fi'', ''PPP''],
      isIPLayer = None\<rparr>,
     \<lparr>number = 1, layerName = ''Physical Layer'',
      layerDescription = ''Physical transmission of raw bits'',
      protocols = [''Cable'', ''Fiber'', ''Radio waves''],
      isIPLayer = None\<rparr>]"

definition osiLayers_ipv6 :: "OSILayer list" where
  "osiLayers_ipv6 = [
     \<lparr>number = 7, layerName = ''Application Layer'',
      layerDescription = ''Network services to applications'',
      protocols = [''HTTP'', ''HTTPS'', ''FTP'', ''SMTP'', ''DNS''],
      isIPLayer = None\<rparr>,
     \<lparr>number = 6, layerName = ''Presentation Layer'',
      layerDescription = ''Data translation, encryption, compression'',
      protocols = [''SSL/TLS'', ''JPEG'', ''GIF'', ''ASCII''],
      isIPLayer = None\<rparr>,
     \<lparr>number = 5, layerName = ''Session Layer'',
      layerDescription = ''Establishes, manages, terminates connections'',
      protocols = [''NetBIOS'', ''RPC'', ''SQL''],
      isIPLayer = None\<rparr>,
     \<lparr>number = 4, layerName = ''Transport Layer'',
      layerDescription = ''Reliable data transfer, error recovery'',
      protocols = [''TCP'', ''UDP'', ''SCTP''],
      isIPLayer = None\<rparr>,
     \<lparr>number = 3, layerName = ''Network Layer'',
      layerDescription = ''Routing, logical addressing'',
      protocols = [''IPv6'', ''IPv4'', ''ICMPv6'', ''OSPF''],
      isIPLayer = Some True\<rparr>,
     \<lparr>number = 2, layerName = ''Data Link Layer'',
      layerDescription = ''Node-to-node delivery, error detection'',
      protocols = [''Ethernet'', ''Wi-Fi'', ''PPP''],
      isIPLayer = None\<rparr>,
     \<lparr>number = 1, layerName = ''Physical Layer'',
      layerDescription = ''Physical transmission of raw bits'',
      protocols = [''Cable'', ''Fiber'', ''Radio waves''],
      isIPLayer = None\<rparr>]"

text \<open>Which tables and which literal texts each copy of the component uses.\<close>

fun ipFields :: "variant \<Rightarrow> HeaderField list" where
  "ipFields IPv4Story = ipv4Fields_story"
| "ipFields IPv6Story = ipv6Fields_story"
| "ipFields IPv6Page = ipv6Fields_page"
| "ipFields IPv4Plain = ipv4Fields_plain"

fun osiLayers :: "variant \<Rightarrow> OSILayer list" where
  "osiLayers IPv4Story = osiLayers_ipv4"
| "osiLayers IPv6Story = osiLayers_ipv6"
| "osiLayers IPv6Page = osiLayers_ipv6"
| "osiLayers IPv4Plain = osiLayers_ipv4"

fun ipLabel :: "variant \<Rightarrow> string" where
  "ipLabel IPv4Story = ''IPv4''"
| "ipLabel IPv6Story = ''IPv6''"
| "ipLabel IPv6Page = ''IPv6''"
| "ipLabel IPv4Plain = ''IPv4''"

section \<open>Component state and its updates\<close>

text \<open>
  The three \<open>useState\<close> cells of the component. \<open>null\<close> is \<open>None\<close>. A setter is
  called with a value, never with an updater function, and replaces one cell with that
  value.
\<close>

record AppState =
  isDarkMode :: bool
  hoveredField :: "string option"
  hoveredLayer :: "int option"

fun initialDarkMode :: "variant \<Rightarrow> bool" where
  "initialDarkMode IPv4Story = False"
| "initialDarkMode IPv6Story = True"
| "initialDarkMode IPv6Page = True"
| "initialDarkMode IPv4Plain = False"

definition initialState :: "variant \<Rightarrow> AppState" where
  "initialState v =
     \<lparr>isDarkMode = initialDarkMode v, hoveredField = None, hoveredLayer = None\<rparr>"

definition setIsDarkMode :: "bool \<Rightarrow> AppState \<Rightarrow> AppState" where
  "setIsDarkMode b s = s\<lparr>isDarkMode := b\<rparr>"

definition setHoveredField :: "string option \<Rightarrow> AppState \<Rightarrow> AppState" where
  "setHoveredField x s = s\<lparr>hoveredField := x\<rparr>"

definition setHoveredLayer :: "int option \<Rightarrow> AppState \<Rightarrow> AppState" where
  "setHoveredLayer x s = s\<lparr>hoveredLayer := x\<rparr>"

text \<open>
  \<open>toggleTheme\<close> is a closure that every render makes anew: its body
  \<open>setIsDarkMode(!isDarkMode)\<close> reads the \<open>isDarkMode\<close> of the render that made it, not
  the cell's value at the time of the call. The first argument is the state of that
  render, the second the state the update is applied to. The hover handlers pass
  constants of the markup or of the layer table and capture no state.

  The theme button has \<open>onClick={toggleTheme}\<close>: a click runs the closure of the render
  that is on the screen, the render of the current state.
\<close>

definition toggleTheme :: "AppState \<Rightarrow> AppState \<Rightarrow> AppState" where
  "toggleTheme rendered s = setIsDarkMode (\<not> isDarkMode rendered) s"


section \<open>The rendered view\<close>

text \<open>
  JavaScript truthiness, as used by \<open>x && (...)\<close> in the markup: an absent or empty
  string renders nothing, and so does an absent or false flag.
\<close>

definition truthyString :: "string option \<Rightarrow> bool" where
  "truthyString x = (case x of None \<Rightarrow> False | Some t \<Rightarrow> t \<noteq> [])"

definition truthyFlag :: "bool option \<Rightarrow> bool" where
  "truthyFlag x = (case x of None \<Rightarrow> False | Some b \<Rightarrow> b)"

subsection \<open>Header tab: the list of field cards\<close>

text \<open>
  One card per entry of the field table, in table order. \<open>cardClass\<close> is the
  interpolated part of the card's class name, after the fixed
  \<open>transition-all duration-200\<close>.
\<close>

definition cardHighlightClass :: string where
  "cardHighlightClass = ''border-2 border-blue-500 bg-blue-50 dark:bg-blue-950 shadow-lg scale-105''"

definition cardNormalClass :: string where
  "cardNormalClass = ''border border-gray-200 dark:border-gray-700''"

record FieldCard =
  cardKey :: string
  cardClass :: string
  cardBits :: string
  cardName :: string
  cardDescription :: string
  cardPurpose :: string
  cardExample :: "string option"

definition exampleBox :: "HeaderField \<Rightarrow> string option" where
  "exampleBox field = (if truthyString (example field) then example field else None)"

definition fieldCard :: "string option \<Rightarrow> HeaderField \<Rightarrow> FieldCard" where
  "fieldCard hovered field =
     \<lparr>cardKey = name field,
      cardClass = (if hovered = Some (name field) then cardHighlightClass else cardNormalClass),
      cardBits = bits field,
      cardName = name field,
      cardDescription = description field,
      cardPurpose = purpose field,
      cardExample = exampleBox field\<rparr>"

definition fieldExplanations :: "HeaderField list \<Rightarrow> AppState \<Rightarrow> FieldCard list" where
  "fieldExplanations fs s = map (fieldCard (hoveredField s)) fs"

subsection \<open>Header tab: the single detail panel\<close>

text \<open>
  The copy without a Story tab renders a bordered card only while \<open>hoveredField\<close> is
  truthy, and inside it the entry that \<open>find\<close> returns, or nothing when \<open>find\<close>
  returns \<open>undefined\<close>.
\<close>

record FieldDetail =
  detailBits :: string
  detailName :: string
  detailDescription :: string
  detailPurpose :: string
  detailExample :: "string option"

datatype DetailPanel = DetailPanel "FieldDetail option"

definition fieldDetail :: "HeaderField \<Rightarrow> FieldDetail" where
  "fieldDetail field =
     \<lparr>detailBits = bits field,
      detailName = name field,
      detailDescription = description field,
      detailPurpose = purpose field,
      detailExample = exampleBox field\<rparr>"

definition fieldDetails :: "HeaderField list \<Rightarrow> AppState \<Rightarrow> DetailPanel option" where
  "fieldDetails fs s =
     (if truthyString (hoveredField s)
      then Some (DetailPanel
             (case find (\<lambda>f. Some (name f) = hoveredField s) fs of
                Some field \<Rightarrow> Some (fieldDetail field)
              | None \<Rightarrow> None))
      else None)"

subsection \<open>OSI Model tab\<close>

text \<open>
  One card per layer, in table order. \<open>layerBorderClass\<close> and \<open>layerHoverClass\<close> are
  the two interpolated parts of the card's class name.
\<close>

definition focusBorderClass :: string where
  "focusBorderClass = ''border-blue-500 bg-blue-50 dark:bg-blue-950''"

definition plainBorderClass :: string where
  "plainBorderClass =
     ''border-gray-200 dark:border-gray-700 hover:border-gray-300 dark:hover:border-gray-600''"

definition hoverClass :: string where
  "hoverClass = ''scale-105 shadow-lg''"

record ProtocolBadge =
  protocolKey :: string
  protocolClass :: string
  protocolText :: string

definition protocolBadge :: "string \<Rightarrow> string \<Rightarrow> ProtocolBadge" where
  "protocolBadge label protocol =
     \<lparr>protocolKey = protocol,
      protocolClass =
        (if protocol = label then ''bg-blue-100 dark:bg-blue-900 border-blue-300'' else ''''),
      protocolText = protocol\<rparr>"

record LayerCard =
  layerKey :: int
  layerBorderClass :: string
  layerHoverClass :: string
  numberBadgeVariant :: string
  numberBadgeText :: int
  layerTitle :: string
  layerText :: string
  ipLayerBadge :: "string option"
  protocolBadges :: "ProtocolBadge list"

definition layerCard :: "string \<Rightarrow> int option \<Rightarrow> OSILayer \<Rightarrow> LayerCard" where
  "layerCard label hovered layer =
     \<lparr>layerKey = number layer,
      layerBorderClass =
        (if truthyFlag (isIPLayer layer) then focusBorderClass else plainBorderClass),
      layerHoverClass = (if hovered = Some (number layer) then hoverClass else ''''),
      numberBadgeVariant =
        (if truthyFlag (isIPLayer layer) then ''default'' else ''secondary''),
      numberBadgeText = number layer,
      layerTitle = layerName layer,
      layerText = layerDescription layer,
      ipLayerBadge = (if truthyFlag (isIPLayer layer) then Some (label @ '' Layer'') else None),
      protocolBadges = map (protocolBadge label) (protocols layer)\<rparr>"

definition osiModel :: "variant \<Rightarrow> AppState \<Rightarrow> LayerCard list" where
  "osiModel v s = map (layerCard (ipLabel v) (hoveredLayer s)) (osiLayers v)"

subsection \<open>Integration tab\<close>

text \<open>
  Two lists over the same table: the one under the heading for sending maps over
  \<open>osiLayers.slice().reverse()\<close>, the one under the heading for receiving maps over
  \<open>osiLayers\<close>. The note of a row starts with a left arrow (U+2190), written here as its
  three UTF-8 bytes.
\<close>

definition leftArrow :: string where
  "leftArrow = [CHR 0xE2, CHR 0x86, CHR 0x90]"

record FlowRow =
  rowKey :: int
  rowNumber :: int
  rowName :: string
  rowNote :: "string option"

definition flowRow :: "string \<Rightarrow> OSILayer \<Rightarrow> FlowRow" where
  "flowRow note layer =
     \<lparr>rowKey = number layer,
      rowNumber = number layer,
      rowName = layerName layer,
      rowNote = (if truthyFlag (isIPLayer layer) then Some note else None)\<rparr>"

record IntegrationView =
  sendingHeading :: string
  sendingRows :: "FlowRow list"
  receivingHeading :: string
  receivingRows :: "FlowRow list"

definition integration :: "variant \<Rightarrow> IntegrationView" where
  "integration v =
     \<lparr>sendingHeading = ''Sending (Top to Bottom)'',
      sendingRows =
        map (flowRow (leftArrow @ '' '' @ ipLabel v @ '' Header Added'')) (rev (osiLayers v)),
      receivingHeading = ''Receiving (Bottom to Top)'',
      receivingRows =
        map (flowRow (leftArrow @ '' '' @ ipLabel v @ '' Header Processed'')) (osiLayers v)\<rparr>"

subsection \<open>The page\<close>

text \<open>
  The tab strip is the widget library's; it keeps the selected tab itself and shows the
  content of that tab only, so the selected tab is an argument of \<open>render\<close>. The Story
  tab is static prose. The copy in \<open>part_001\<close> has no Story tab.
\<close>

datatype Section = Story | Header | OsiModel | Integration

datatype Icon = Sun | Moon

datatype TabContent =
    StoryContent
  | FieldList "FieldCard list"
  | FieldPanel "DetailPanel option"
  | LayerList "LayerCard list"
  | IntegrationContent IntegrationView
  | NoContent

record Page =
  rootClass :: string
  themeIcon :: Icon
  tabContent :: TabContent

fun tabs :: "variant \<Rightarrow> Section \<Rightarrow> AppState \<Rightarrow> TabContent" where
  "tabs IPv4Plain Story s = NoContent"
| "tabs v Story s = StoryContent"
| "tabs IPv4Plain Header s = FieldPanel (fieldDetails (ipFields IPv4Plain) s)"
| "tabs v Header s = FieldList (fieldExplanations (ipFields v) s)"
| "tabs v OsiModel s = LayerList (osiModel v s)"
| "tabs v Integration s = IntegrationContent (integration v)"

definition render :: "variant \<Rightarrow> Section \<Rightarrow> AppState \<Rightarrow> Page" where
  "render v sec s =
     \<lparr>rootClass =
        ''min-h-screen transition-colors duration-300 '' @
        (if isDarkMode s then ''dark bg-gray-900 text-white'' else ''bg-gray-50 text-gray-900''),
      themeIcon = (if isDarkMode s then Sun else Moon),
      tabContent = tabs v sec s\<rparr>"

section \<open>Reading the view\<close>

text \<open>
  What an observer of the page can ask of it: which field cards are highlighted, what
  the detail panel shows, which layer cards carry the hover emphasis, which rows of the
  integration lists are annotated.
\<close>

definition highlighted :: "FieldCard \<Rightarrow> bool" where
  "highlighted c = (cardClass c = cardHighlightClass)"

fun fieldCards :: "TabContent \<Rightarrow> FieldCard list" where
  "fieldCards (FieldList cs) = cs"
| "fieldCards _ = []"

fun shownDetail :: "TabContent \<Rightarrow> FieldDetail option" where
  "shownDetail (FieldPanel (Some (DetailPanel d))) = d"
| "shownDetail _ = None"

definition emphasised :: "LayerCard \<Rightarrow> bool" where
  "emphasised c = (layerHoverClass c = hoverClass)"

fun layerCards :: "TabContent \<Rightarrow> LayerCard list" where
  "layerCards (LayerList cs) = cs"
| "layerCards _ = []"

definition annotated :: "FlowRow \<Rightarrow> bool" where
  "annotated r = (rowNote r \<noteq> None)"

definition isFocusLayer :: "OSILayer \<Rightarrow> bool" where
  "isFocusLayer layer = truthyFlag (isIPLayer layer)"

definition hasNumber :: "int \<Rightarrow> OSILayer \<Rightarrow> bool" where
  "hasNumber k layer = (number layer = k)"

definition hasProtocol :: "string \<Rightarrow> OSILayer \<Rightarrow> bool" where
  "hasProtocol p layer = (p \<in> set (protocols layer))"

definition hasName :: "string \<Rightarrow> HeaderField \<Rightarrow> bool" where
  "hasName n field = (name field = n)"

section \<open>Facts about the tables\<close>

lemma field_names:
  "map name ipv4Fields_story =
     [''Version'', ''IHL'', ''Type of Service'', ''Total Length'', ''Identification'',
      ''Flags'', ''Fragment Offset'', ''Time to Live'', ''Protocol'', ''Header Checksum'',
      ''Source IP Address'', ''Destination IP Address'', ''Options'']"
  "map name ipv4Fields_plain = map name ipv4Fields_story"
  "map name ipv6Fields_story =
     [''Version'', ''Traffic Class'', ''Flow Label'', ''Payload Length'', ''Next Header'',
      ''Hop Limit'', ''Source Address'', ''Destination Address'', ''Extension Headers'']"
  "map name ipv6Fields_page = map name ipv6Fields_story"
  by (simp_all add: ipv4Fields_story_def ipv4Fields_plain_def ipv6Fields_story_def
      ipv6Fields_page_def)

lemma distinct_field_names: "distinct (map name (ipFields v))"
  by (cases v) (simp_all add: field_names)

lemma layer_numbers: "map number (osiLayers v) = [7, 6, 5, 4, 3, 2, 1]"
  by (cases v) (simp_all add: osiLayers_ipv4_def osiLayers_ipv6_def)

lemma layer_names:
  "map layerName (osiLayers v) =
     [''Application Layer'', ''Presentation Layer'', ''Session Layer'', ''Transport Layer'',
      ''Network Layer'', ''Data Link Layer'', ''Physical Layer'']"
  by (cases v) (simp_all add: osiLayers_ipv4_def osiLayers_ipv6_def)

lemma layer_focus:
  "map isFocusLayer (osiLayers v) = [False, False, False, False, True, False, False]"
  by (cases v)
    (simp_all add: osiLayers_ipv4_def osiLayers_ipv6_def isFocusLayer_def truthyFlag_def)

section \<open>Facts about the derivation of the view\<close>

lemma card_classes_differ: "cardHighlightClass \<noteq> cardNormalClass"
  by (simp add: cardHighlightClass_def cardNormalClass_def)

lemma highlighted_fieldCard: "highlighted (fieldCard h f) = (h = Some (name f))"
  using card_classes_differ by (simp add: highlighted_def fieldCard_def)

lemma highlighted_cards:
  "map highlighted (fieldExplanations fs s) = map (\<lambda>f. hoveredField s = Some (name f)) fs"
  by (simp add: fieldExplanations_def highlighted_fieldCard)

lemma count_highlighted:
  "length (filter highlighted (fieldExplanations fs s)) =
     length (filter (\<lambda>f. hoveredField s = Some (name f)) fs)"
  by (simp add: fieldExplanations_def highlighted_fieldCard filter_map comp_def)

lemma card_names: "map cardName (fieldExplanations fs s) = map name fs"
  by (simp add: fieldExplanations_def fieldCard_def)

lemma distinct_at_most_one:
  "distinct (map name fs) \<Longrightarrow> length (filter (\<lambda>f. h = Some (name f)) fs) \<le> 1"
proof (induction fs)
  case Nil
  show ?case by simp
next
  case (Cons f fs)
  show ?case
  proof (cases "h = Some (name f)")
    case True
    with Cons.prems have "filter (\<lambda>g. h = Some (name g)) fs = []"
      by (auto simp: filter_empty_conv)
    with True show ?thesis by simp
  next
    case False
    with Cons show ?thesis by simp
  qed
qed

lemma member_at_least_one:
  "n \<in> set (map name fs) \<Longrightarrow> 1 \<le> length (filter (\<lambda>f. Some n = Some (name f)) fs)"
  by (induction fs) auto

lemma find_absent:
  "n \<notin> set (map name fs) \<Longrightarrow> find (\<lambda>f. Some (name f) = Some n) fs = None"
  by (induction fs) auto

lemma find_present:
  "n \<in> set (map name fs) \<Longrightarrow> \<exists>f. find (\<lambda>f. Some (name f) = Some n) fs = Some f \<and> name f = n"
  by (induction fs) auto

lemma hover_class_nonempty: "hoverClass \<noteq> ''''"
  by (simp add: hoverClass_def)

lemma emphasised_layerCard: "emphasised (layerCard l h layer) = (h = Some (number layer))"
  using hover_class_nonempty by (auto simp: emphasised_def layerCard_def)

lemma emphasised_cards:
  "map emphasised (osiModel v s) = map (\<lambda>l. hoveredLayer s = Some (number l)) (osiLayers v)"
  by (simp add: osiModel_def emphasised_layerCard)

lemma annotated_flowRow: "annotated (flowRow note layer) = isFocusLayer layer"
  by (simp add: annotated_def flowRow_def isFocusLayer_def)

lemma header_tab_list:
  "v \<noteq> IPv4Plain \<Longrightarrow> tabContent (render v Header s) = FieldList (fieldExplanations (ipFields v) s)"
  by (cases v) (simp_all add: render_def)

lemma header_tab_panel:
  "tabContent (render IPv4Plain Header s) = FieldPanel (fieldDetails (ipFields IPv4Plain) s)"
  by (simp add: render_def)

lemma header_cards:
  "fieldCards (tabContent (render v Header s)) =
     (if v = IPv4Plain then [] else fieldExplanations (ipFields v) s)"
  by (cases v) (simp_all add: render_def)

lemma osi_tab: "layerCards (tabContent (render v OsiModel s)) = osiModel v s"
  by (cases v) (simp_all add: render_def)

lemma integration_tab: "tabContent (render v Integration s) = IntegrationContent (integration v)"
  by (cases v) (simp_all add: render_def)

lemma annotated_rows:
  "map annotated (sendingRows (integration v)) = rev (map isFocusLayer (osiLayers v))"
  "map annotated (receivingRows (integration v)) = map isFocusLayer (osiLayers v)"
  by (simp_all add: integration_def annotated_flowRow rev_map)

lemma row_numbers:
  "map rowNumber (sendingRows (integration v)) = rev (map number (osiLayers v))"
  "map rowNumber (receivingRows (integration v)) = map number (osiLayers v)"
  by (simp_all add: integration_def flowRow_def rev_map comp_def)

lemma row_names:
  "map rowName (sendingRows (integration v)) = rev (map layerName (osiLayers v))"
  "map rowName (receivingRows (integration v)) = map layerName (osiLayers v)"
  by (simp_all add: integration_def flowRow_def rev_map comp_def)

lemma filter_by_flags:
  "map f (filter p xs) = map fst (filter snd (zip (map f xs) (map p xs)))"
  by (induction xs) auto

section \<open>Hovering a field of the dataset\<close>

text \<open>
  In the single-panel copy there are no cards; the panel shows the entry of the hovered
  name.
\<close>

lemma panel_shows_hovered_field:
  assumes "n \<in> set (map name (ipFields IPv4Plain))"
  shows "\<exists>f \<in> set (ipFields IPv4Plain). name f = n \<and>
           shownDetail (tabContent (render IPv4Plain Header (setHoveredField (Some n) s))) =
             Some (fieldDetail f)"
proof -
  from assms have "n \<noteq> []"
    by (auto simp: field_names)
  moreover from find_present [OF assms] obtain f where
    f: "find (\<lambda>f. Some (name f) = Some n) (ipFields IPv4Plain) = Some f" "name f = n"
    by blast
  moreover from f(1) have "f \<in> set (ipFields IPv4Plain)"
    by (auto simp: find_Some_iff)
  ultimately show ?thesis
    by (auto simp: render_def fieldDetails_def setHoveredField_def truthyString_def)
qed

text \<open>
  C1. In the copies that render the list of field cards, after \<open>setHoveredField\<close> with a
  name \<open>n\<close> of the copy's field table the Header tab shows one card per table entry, the
  card of an entry is highlighted exactly when the entry's name is \<open>n\<close>, exactly one card
  is highlighted, and in every state at most one card is highlighted.
\<close>

theorem C1_hovered_field_is_the_one_highlighted:
  assumes "v \<noteq> IPv4Plain" and "n \<in> set (map name (ipFields v))"
  shows "map cardName (fieldCards (tabContent (render v Header (setHoveredField (Some n) s)))) =
           map name (ipFields v)
       \<and> map highlighted (fieldCards (tabContent (render v Header (setHoveredField (Some n) s)))) =
           map (hasName n) (ipFields v)
       \<and> length (filter highlighted
           (fieldCards (tabContent (render v Header (setHoveredField (Some n) s))))) = 1
       \<and> length (filter highlighted (fieldCards (tabContent (render v Header s')))) \<le> 1"
proof -
  let ?s = "setHoveredField (Some n) s"
  have hov: "hoveredField ?s = Some n"
    by (simp add: setHoveredField_def)
  have cards: "\<And>t. fieldCards (tabContent (render v Header t)) = fieldExplanations (ipFields v) t"
    using assms(1) by (simp add: header_cards)
  have names: "map cardName (fieldExplanations (ipFields v) ?s) = map name (ipFields v)"
    by (rule card_names)
  have marks: "map highlighted (fieldExplanations (ipFields v) ?s) = map (hasName n) (ipFields v)"
    by (auto simp: highlighted_cards hov hasName_def)
  have "length (filter highlighted (fieldExplanations (ipFields v) ?s)) \<le> 1"
    unfolding count_highlighted by (rule distinct_at_most_one [OF distinct_field_names])
  moreover have "1 \<le> length (filter highlighted (fieldExplanations (ipFields v) ?s))"
    unfolding count_highlighted hov by (rule member_at_least_one [OF assms(2)])
  ultimately have one: "length (filter highlighted (fieldExplanations (ipFields v) ?s)) = 1"
    by simp
  have most: "length (filter highlighted (fieldExplanations (ipFields v) s')) \<le> 1"
    unfolding count_highlighted by (rule distinct_at_most_one [OF distinct_field_names])
  show ?thesis
    unfolding cards using names marks one most by simp
qed

theorem C1_witness:
  "IPv4Story \<noteq> IPv4Plain
   \<and> ''Time to Live'' \<in> set (map name (ipFields IPv4Story))
   \<and> map highlighted (fieldCards (tabContent (render IPv4Story Header
        (setHoveredField (Some ''Time to Live'') (initialState IPv4Story))))) =
      [False, False, False, False, False, False, False, True, False, False, False, False, False]
   \<and> length (filter highlighted (fieldCards (tabContent (render IPv4Story Header
        (setHoveredField (Some ''Time to Live'') (initialState IPv4Story)))))) = 1"
proof -
  have v: "IPv4Story \<noteq> IPv4Plain"
    by simp
  have n: "''Time to Live'' \<in> set (map name (ipFields IPv4Story))"
    by (simp add: field_names)
  have flags: "map (hasName ''Time to Live'') (ipFields IPv4Story) =
      [False, False, False, False, False, False, False, True, False, False, False, False, False]"
    by (simp add: ipv4Fields_story_def hasName_def)
  show ?thesis
    using C1_hovered_field_is_the_one_highlighted
      [OF v n, of "initialState IPv4Story" "initialState IPv4Story"] v n
    by (simp only: flags simp_thms)
qed

section \<open>Hovering something that is not in the dataset\<close>

text \<open>
  The lookup of the single-panel copy is guarded (\<open>field ? ... : null\<close>), and the card
  list only compares names, so no access of a missing entry is ever made: the view is a
  value in every state. For a non-empty name outside the table the single-panel copy
  still renders the panel's frame, with nothing inside.
\<close>

lemma panel_of_unknown_field:
  assumes "n \<notin> set (map name (ipFields IPv4Plain))"
  shows "tabContent (render IPv4Plain Header (setHoveredField (Some n) s)) =
           FieldPanel (if n = [] then None else Some (DetailPanel None))"
  using find_absent [OF assms]
  by (simp add: render_def fieldDetails_def setHoveredField_def truthyString_def)

text \<open>
  C3. When the hovered field name is not a name of the copy's field table, no field card
  is highlighted and no field detail is shown; when the hovered layer number is not a
  number of the layer table, no layer card carries the hover emphasis. The view is
  derived without a fault: \<open>render\<close> returns a page.
\<close>

theorem C3_unknown_identifier_shows_nothing:
  assumes "n \<notin> set (map name (ipFields v))" and "k \<notin> set (map number (osiLayers v))"
  shows "filter highlighted (fieldCards (tabContent (render v Header (setHoveredField (Some n) s)))) = []
       \<and> shownDetail (tabContent (render v Header (setHoveredField (Some n) s))) = None
       \<and> filter emphasised (layerCards (tabContent (render v OsiModel (setHoveredLayer (Some k) s)))) = []"
proof -
  let ?s = "setHoveredField (Some n) s"
  have hov: "hoveredField ?s = Some n"
    by (simp add: setHoveredField_def)
  have "\<forall>f \<in> set (ipFields v). \<not> highlighted (fieldCard (Some n) f)"
    using assms(1) by (auto simp: highlighted_fieldCard)
  then have "filter highlighted (fieldExplanations (ipFields v) ?s) = []"
    by (auto simp: fieldExplanations_def hov filter_empty_conv)
  then have cards: "filter highlighted (fieldCards (tabContent (render v Header ?s))) = []"
    by (simp add: header_cards)
  have detail: "shownDetail (tabContent (render v Header ?s)) = None"
  proof (cases "v = IPv4Plain")
    case True
    with assms(1) show ?thesis
      by (simp add: panel_of_unknown_field)
  next
    case False
    then show ?thesis
      by (simp add: header_tab_list)
  qed
  have "\<forall>l \<in> set (osiLayers v). \<not> emphasised (layerCard (ipLabel v) (Some k) l)"
    using assms(2) by (auto simp: emphasised_layerCard)
  then have layers:
    "filter emphasised (layerCards (tabContent (render v OsiModel (setHoveredLayer (Some k) s)))) = []"
    by (auto simp: osi_tab osiModel_def setHoveredLayer_def filter_empty_conv)
  from cards detail layers show ?thesis
    by simp
qed

theorem C3_witness:
  "''Checksum'' \<notin> set (map name (ipFields IPv4Plain))
   \<and> (8::int) \<notin> set (map number (osiLayers IPv4Plain))
   \<and> shownDetail (tabContent (render IPv4Plain Header
        (setHoveredField (Some ''Checksum'') (initialState IPv4Plain)))) = None
   \<and> filter emphasised (layerCards (tabContent (render IPv4Plain OsiModel
        (setHoveredLayer (Some 8) (initialState IPv4Plain))))) = []"
proof -
  have n: "''Checksum'' \<notin> set (map name (ipFields IPv4Plain))"
    unfolding ipFields.simps field_names by simp
  have k: "(8::int) \<notin> set (map number (osiLayers IPv4Plain))"
    unfolding layer_numbers by simp
  show ?thesis
    using C3_unknown_identifier_shows_nothing [OF n k, of "initialState IPv4Plain"] n k
    by (simp only: simp_thms)
qed

section \<open>The layer tables\<close>

text \<open>
  C4. In every copy the layer numbered 3 has its flag set and lists
  \<open>IPv4\<close>; it lists \<open>ICMP\<close> in the IPv4 copies and \<open>ICMPv6\<close>, not \<open>ICMP\<close>,
  in the IPv6 copies.
\<close>

theorem C4_layer_three_flag_and_protocols:
  "map isFocusLayer (filter (hasNumber 3) (osiLayers v)) = [True]
   \<and> map (hasProtocol ''IPv4'') (filter (hasNumber 3) (osiLayers v)) = [True]
   \<and> map (hasProtocol ''ICMP'') (filter (hasNumber 3) (osiLayers v)) = [ipLabel v = ''IPv4'']
   \<and> map (hasProtocol ''ICMPv6'') (filter (hasNumber 3) (osiLayers v)) = [ipLabel v = ''IPv6'']"
  by (cases v)
    (simp_all add: osiLayers_ipv4_def osiLayers_ipv6_def hasNumber_def hasProtocol_def
      isFocusLayer_def truthyFlag_def)

text \<open>
  The layer numbered 3 of the table in \<open>src/app/page.tsx\<close> does not list \<open>ICMP\<close>.
\<close>

theorem C4_counterexample:
  "map (hasProtocol ''ICMP'') (filter (hasNumber 3) (osiLayers IPv6Page)) = [False]"
  by (simp add: osiLayers_ipv6_def hasNumber_def hasProtocol_def)

text \<open>
  C5. Every layer table has the seven numbers 7 down to 1, and exactly one layer, the one
  numbered 3, has its flag set. Both lists of the Integration tab annotate that layer
  and no other; it is the third row of the list under the sending heading and the fifth
  row of the list under the receiving heading.
\<close>

theorem C5_one_focus_layer_in_both_lists:
  "map number (osiLayers v) = [7, 6, 5, 4, 3, 2, 1]
   \<and> length (filter isFocusLayer (osiLayers v)) = 1
   \<and> map number (filter isFocusLayer (osiLayers v)) = [3]
   \<and> map rowNumber (filter annotated (sendingRows (integration v))) = [3]
   \<and> map rowNumber (filter annotated (receivingRows (integration v))) = [3]
   \<and> map rowName (filter annotated (sendingRows (integration v))) = [''Network Layer'']
   \<and> map rowName (filter annotated (receivingRows (integration v))) = [''Network Layer'']
   \<and> map annotated (sendingRows (integration v)) =
        [False, False, True, False, False, False, False]
   \<and> map annotated (receivingRows (integration v)) =
        [False, False, False, False, True, False, False]"
proof -
  let ?S = "sendingRows (integration v)" and ?R = "receivingRows (integration v)"
  have numbers: "map number (filter isFocusLayer (osiLayers v)) = [3]"
    unfolding filter_by_flags [of number isFocusLayer "osiLayers v"] layer_numbers layer_focus
    by simp
  have "length (filter isFocusLayer (osiLayers v)) =
      length (map number (filter isFocusLayer (osiLayers v)))"
    by simp
  also have "\<dots> = 1"
    unfolding numbers by simp
  finally have one: "length (filter isFocusLayer (osiLayers v)) = 1" .
  have flagsS: "map annotated ?S = [False, False, True, False, False, False, False]"
    unfolding annotated_rows layer_focus by simp
  have flagsR: "map annotated ?R = [False, False, False, False, True, False, False]"
    unfolding annotated_rows layer_focus by simp
  have numS: "map rowNumber (filter annotated ?S) = [3]"
    unfolding filter_by_flags [of rowNumber annotated ?S] flagsS row_numbers layer_numbers
    by simp
  have numR: "map rowNumber (filter annotated ?R) = [3]"
    unfolding filter_by_flags [of rowNumber annotated ?R] flagsR row_numbers layer_numbers
    by simp
  have nameS: "map rowName (filter annotated ?S) = [''Network Layer'']"
    unfolding filter_by_flags [of rowName annotated ?S] flagsS row_names layer_names
    by simp
  have nameR: "map rowName (filter annotated ?R) = [''Network Layer'']"
    unfolding filter_by_flags [of rowName annotated ?R] flagsR row_names layer_names
    by simp
  from layer_numbers [of v] one numbers numS numR nameS nameR flagsS flagsR show ?thesis
    by (simp only: simp_thms)
qed

section \<open>The OSI Model tab\<close>

lemma border_classes_differ: "focusBorderClass \<noteq> plainBorderClass"
  by (simp add: focusBorderClass_def plainBorderClass_def)

lemma osiModel_columns:
  "map numberBadgeText (osiModel v s) = map number (osiLayers v)"
  "map layerKey (osiModel v s) = map number (osiLayers v)"
  "map layerBorderClass (osiModel v s) =
     map (\<lambda>b. if b then focusBorderClass else plainBorderClass) (map isFocusLayer (osiLayers v))"
  "map numberBadgeVariant (osiModel v s) =
     map (\<lambda>b. if b then ''default'' else ''secondary'') (map isFocusLayer (osiLayers v))"
  "map ipLayerBadge (osiModel v s) =
     map (\<lambda>b. if b then Some (ipLabel v @ '' Layer'') else None) (map isFocusLayer (osiLayers v))"
  by (simp_all add: osiModel_def layerCard_def isFocusLayer_def comp_def)

text \<open>
  C6. In every state the OSI Model tab shows the seven layer cards in the order 7 down
  to 1; the card of layer 3, and no other, has the focus border class, the number badge
  variant \<open>default\<close> and the extra badge naming the protocol; the focus border class is
  not the plain one. None of this depends on the hovered layer or field.
\<close>

theorem C6_osi_model_order_and_focus_styling:
  "map numberBadgeText (layerCards (tabContent (render v OsiModel s))) = [7, 6, 5, 4, 3, 2, 1]
   \<and> map layerBorderClass (layerCards (tabContent (render v OsiModel s))) =
        [plainBorderClass, plainBorderClass, plainBorderClass, plainBorderClass,
         focusBorderClass, plainBorderClass, plainBorderClass]
   \<and> focusBorderClass \<noteq> plainBorderClass
   \<and> map numberBadgeVariant (layerCards (tabContent (render v OsiModel s))) =
        [''secondary'', ''secondary'', ''secondary'', ''secondary'',
         ''default'', ''secondary'', ''secondary'']
   \<and> map ipLayerBadge (layerCards (tabContent (render v OsiModel s))) =
        [None, None, None, None, Some (ipLabel v @ '' Layer''), None, None]"
proof -
  have "map numberBadgeText (osiModel v s) = [7, 6, 5, 4, 3, 2, 1]"
    unfolding osiModel_columns layer_numbers by (rule refl)
  moreover have "map layerBorderClass (osiModel v s) =
      [plainBorderClass, plainBorderClass, plainBorderClass, plainBorderClass,
       focusBorderClass, plainBorderClass, plainBorderClass]"
    unfolding osiModel_columns layer_focus by simp
  moreover have "map numberBadgeVariant (osiModel v s) =
      [''secondary'', ''secondary'', ''secondary'', ''secondary'',
       ''default'', ''secondary'', ''secondary'']"
    unfolding osiModel_columns layer_focus by simp
  moreover have "map ipLayerBadge (osiModel v s) =
      [None, None, None, None, Some (ipLabel v @ '' Layer''), None, None]"
    unfolding osiModel_columns layer_focus by simp
  ultimately show ?thesis
    unfolding osi_tab using border_classes_differ by (simp only: simp_thms)
qed

section \<open>The Integration tab\<close>

text \<open>
  The two lists are the same table in opposite orders, row for row, and the annotated
  row carries the note of its list.
\<close>

lemma integration_lists_reorder:
  "map rowNumber (sendingRows (integration v)) = rev (map rowNumber (receivingRows (integration v)))"
  "map rowName (sendingRows (integration v)) = rev (map rowName (receivingRows (integration v)))"
  "map annotated (sendingRows (integration v)) = rev (map annotated (receivingRows (integration v)))"
  by (simp_all add: row_numbers row_names annotated_rows)

lemma integration_notes:
  "map rowNote (sendingRows (integration v)) =
     [None, None, Some (leftArrow @ '' '' @ ipLabel v @ '' Header Added''), None, None, None, None]"
  "map rowNote (receivingRows (integration v)) =
     [None, None, None, None, Some (leftArrow @ '' '' @ ipLabel v @ '' Header Processed''),
      None, None]"
proof -
  have "map rowNote (sendingRows (integration v)) =
      map (\<lambda>b. if b then Some (leftArrow @ '' '' @ ipLabel v @ '' Header Added'') else None)
        (rev (map isFocusLayer (osiLayers v)))"
    by (simp add: integration_def flowRow_def isFocusLayer_def rev_map comp_def)
  then show "map rowNote (sendingRows (integration v)) =
     [None, None, Some (leftArrow @ '' '' @ ipLabel v @ '' Header Added''), None, None, None, None]"
    unfolding layer_focus by simp
  have "map rowNote (receivingRows (integration v)) =
      map (\<lambda>b. if b then Some (leftArrow @ '' '' @ ipLabel v @ '' Header Processed'') else None)
        (map isFocusLayer (osiLayers v))"
    by (simp add: integration_def flowRow_def isFocusLayer_def comp_def)
  then show "map rowNote (receivingRows (integration v)) =
     [None, None, None, None, Some (leftArrow @ '' '' @ ipLabel v @ '' Header Processed''),
      None, None]"
    unfolding layer_focus by simp
qed

text \<open>
  C2, as the code renders it. The list under the heading \<open>Sending (Top to Bottom)\<close> is
  the reversed table and so runs 1 up to 7; the list under the heading
  \<open>Receiving (Bottom to Top)\<close> is the table itself and so runs 7 down to 1. That is the
  opposite of what the two headings announce: the table is already stored from layer 7
  down to layer 1, and the reversal is applied to the sending list.
\<close>

theorem C2_integration_lists_as_rendered:
  "sendingHeading (integration v) = ''Sending (Top to Bottom)''
   \<and> map rowNumber (sendingRows (integration v)) = [1, 2, 3, 4, 5, 6, 7]
   \<and> receivingHeading (integration v) = ''Receiving (Bottom to Top)''
   \<and> map rowNumber (receivingRows (integration v)) = [7, 6, 5, 4, 3, 2, 1]"
proof -
  have "map rowNumber (sendingRows (integration v)) = [1, 2, 3, 4, 5, 6, 7]"
    unfolding row_numbers layer_numbers by simp
  moreover have "map rowNumber (receivingRows (integration v)) = [7, 6, 5, 4, 3, 2, 1]"
    unfolding row_numbers layer_numbers by (rule refl)
  ultimately show ?thesis
    by (simp add: integration_def)
qed

text \<open>
  C7. Two states that agree on the theme flag and on the hovered layer, and so differ at
  most in the hovered field, render the same page when the Integration tab is selected;
  the content of that tab is a function of the copy alone.
\<close>

theorem C7_integration_ignores_hovered_field:
  assumes "isDarkMode s = isDarkMode t" and "hoveredLayer s = hoveredLayer t"
  shows "render v Integration s = render v Integration t
       \<and> tabContent (render v Integration s) = IntegrationContent (integration v)"
  using assms(1) by (cases v) (simp_all add: render_def)

theorem C7_witness:
  "isDarkMode (setHoveredField (Some ''Flags'') (initialState IPv4Story)) =
     isDarkMode (initialState IPv4Story)
   \<and> hoveredLayer (setHoveredField (Some ''Flags'') (initialState IPv4Story)) =
     hoveredLayer (initialState IPv4Story)
   \<and> hoveredField (setHoveredField (Some ''Flags'') (initialState IPv4Story)) \<noteq>
     hoveredField (initialState IPv4Story)
   \<and> render IPv4Story Integration (setHoveredField (Some ''Flags'') (initialState IPv4Story)) =
     render IPv4Story Integration (initialState IPv4Story)"
proof -
  let ?s = "setHoveredField (Some ''Flags'') (initialState IPv4Story)"
  have d: "isDarkMode ?s = isDarkMode (initialState IPv4Story)"
    by (simp add: setHoveredField_def)
  have l: "hoveredLayer ?s = hoveredLayer (initialState IPv4Story)"
    by (simp add: setHoveredField_def)
  have f: "hoveredField ?s \<noteq> hoveredField (initialState IPv4Story)"
    by (simp add: setHoveredField_def initialState_def)
  show ?thesis
    using C7_integration_ignores_hovered_field [OF d l, of IPv4Story] d l f
    by (simp only: simp_thms)
qed

section \<open>State updates\<close>



text \<open>
  The name lookups of the view, for any field table: a card is highlighted when the
  stored name is the entry's name, and the single panel shows what \<open>find\<close> returns for
  the stored name.
\<close>

lemma find_by_name: "find (\<lambda>f. name f = n) fs = find (hasName n) fs"
proof -
  have "hasName n = (\<lambda>f. name f = n)"
    by (simp add: hasName_def fun_eq_iff)
  then show ?thesis
    by simp
qed

lemma find_hasName_None: "(find (hasName n) fs = None) = (n \<notin> set (map name fs))"
  by (auto simp: find_None_iff hasName_def)

lemma panel_lookup:
  "fieldDetails fs (setHoveredField (Some n) s) =
     (if n = [] then None
      else Some (DetailPanel (map_option fieldDetail (find (hasName n) fs))))"
proof -
  have "(case find (hasName n) fs of None \<Rightarrow> None | Some field \<Rightarrow> Some (fieldDetail field)) =
      map_option fieldDetail (find (hasName n) fs)"
    by (cases "find (hasName n) fs") simp_all
  then show ?thesis
    by (simp add: fieldDetails_def setHoveredField_def truthyString_def find_by_name)
qed

lemma panel_shown_iff:
  "(shownDetail (FieldPanel (fieldDetails fs (setHoveredField (Some n) s))) \<noteq> None) =
     (n \<noteq> [] \<and> n \<in> set (map name fs))"
proof (cases "n = []")
  case True
  then show ?thesis
    by (simp add: panel_lookup)
next
  case False
  have "(map_option fieldDetail (find (hasName n) fs) \<noteq> None) = (n \<in> set (map name fs))"
    using find_hasName_None [of n fs] by simp
  with False show ?thesis
    by (simp add: panel_lookup)
qed

lemma field_names_nonempty: "[] \<notin> set (map name (ipFields IPv4Plain))"
  unfolding ipFields.simps field_names by simp

text \<open>A name that is in no field table is stored all the same.\<close>

lemma unknown_name_is_stored:
  "''Checksum'' \<notin> set (map name (ipFields IPv4Story)) \<union> set (map name (ipFields IPv6Story))
     \<union> set (map name (ipFields IPv6Page)) \<union> set (map name (ipFields IPv4Plain))
   \<and> hoveredField (setHoveredField (Some ''Checksum'') (initialState IPv4Plain)) =
       Some ''Checksum''"
  unfolding ipFields.simps field_names by (simp add: setHoveredField_def)

text \<open>
  C9. \<open>setHoveredField\<close> stores its argument as it is, whether or not it names an entry
  of a field table: the update replaces the cell and looks at no table. The name is
  compared with the table only when the view is derived. In the card list, for any
  table, the card of an entry is highlighted exactly when the stored value is the
  entry's name. In the single panel, for any table, the panel is absent for the empty
  name and otherwise holds what \<open>find\<close> returns for the stored name, so a detail is shown
  exactly when the name is non-empty and a name of the table; in the rendered Header tab
  of the single-panel copy that is exactly when the name is in its field table.
\<close>

theorem C9_setHoveredField_stores_argument:
  "hoveredField (setHoveredField x s) = x
   \<and> setHoveredField x s = s\<lparr>hoveredField := x\<rparr>
   \<and> highlighted (fieldCard (hoveredField (setHoveredField x s)) f) = (x = Some (name f))
   \<and> map highlighted (fieldExplanations fs (setHoveredField x s)) =
        map (\<lambda>f. x = Some (name f)) fs
   \<and> fieldDetails fs (setHoveredField (Some n) s) =
        (if n = [] then None
         else Some (DetailPanel (map_option fieldDetail (find (hasName n) fs))))
   \<and> (shownDetail (FieldPanel (fieldDetails fs (setHoveredField (Some n) s))) \<noteq> None) =
        (n \<noteq> [] \<and> n \<in> set (map name fs))
   \<and> (shownDetail (tabContent (render IPv4Plain Header (setHoveredField (Some n) s))) \<noteq> None) =
        (n \<in> set (map name (ipFields IPv4Plain)))"
proof -
  have stored: "hoveredField (setHoveredField x s) = x"
    by (simp add: setHoveredField_def)
  have update: "setHoveredField x s = s\<lparr>hoveredField := x\<rparr>"
    by (simp add: setHoveredField_def)
  have card: "highlighted (fieldCard (hoveredField (setHoveredField x s)) f) = (x = Some (name f))"
    by (simp add: stored highlighted_fieldCard)
  have cards: "map highlighted (fieldExplanations fs (setHoveredField x s)) =
      map (\<lambda>f. x = Some (name f)) fs"
    by (simp add: highlighted_cards stored)
  have "n \<in> set (map name (ipFields IPv4Plain)) \<Longrightarrow> n \<noteq> []"
    using field_names_nonempty by blast
  then have rendered:
    "(shownDetail (tabContent (render IPv4Plain Header (setHoveredField (Some n) s))) \<noteq> None) =
       (n \<in> set (map name (ipFields IPv4Plain)))"
    unfolding header_tab_panel panel_shown_iff by blast
  from stored update card cards panel_lookup [of fs n s] panel_shown_iff [of fs n s] rendered
  show ?thesis
    by (simp only: simp_thms)
qed

text \<open>
  C10. Each update changes its own cell only: \<open>toggleTheme\<close>, whichever render made the
  closure, keeps the hovered field and layer, \<open>setHoveredField\<close> keeps the theme flag and
  the hovered layer, \<open>setHoveredLayer\<close> keeps the theme flag and the hovered field.
\<close>

theorem C10_updates_frame:
  "hoveredField (toggleTheme r s) = hoveredField s
   \<and> hoveredLayer (toggleTheme r s) = hoveredLayer s
   \<and> isDarkMode (setHoveredField x s) = isDarkMode s
   \<and> hoveredLayer (setHoveredField x s) = hoveredLayer s
   \<and> isDarkMode (setHoveredLayer y s) = isDarkMode s
   \<and> hoveredField (setHoveredLayer y s) = hoveredField s"
  by (simp add: toggleTheme_def setIsDarkMode_def setHoveredField_def setHoveredLayer_def)

end
